theory Spec2Isabelle
  imports Complex_Main "HOL-Library.Char_ord" "HOL-Library.List_Lexorder" "HOL-Library.Sublist"
begin

section \<open>Python strings\<close>

text \<open>
  A Python \<open>str\<close> is modelled as a \<open>string\<close> of 8-bit characters read as ASCII text:
  case mapping and whitespace follow Python on the ASCII range, and the characters
  \<open>0x80\<close> to \<open>0xFF\<close> are letters of no case and no whitespace.
\<close>

definition py_isspace :: "char \<Rightarrow> bool" where
  \<comment> \<open>\<open>str.isspace\<close> on one ASCII character: TAB, LF, VT, FF, CR, FS, GS, RS, US and the blank.\<close>
  "py_isspace c = (c \<in> set [CHR 0x09, CHR 0x0A, CHR 0x0B, CHR 0x0C, CHR 0x0D,
                               CHR 0x1C, CHR 0x1D, CHR 0x1E, CHR 0x1F, CHR 0x20])"

definition lstrip :: "string \<Rightarrow> string" where
  "lstrip s = dropWhile py_isspace s"

definition rstrip :: "string \<Rightarrow> string" where
  "rstrip s = rev (dropWhile py_isspace (rev s))"

definition strip :: "string \<Rightarrow> string" where
  \<comment> \<open>\<open>s.strip()\<close>\<close>
  "strip s = rstrip (lstrip s)"

definition lower_char :: "char \<Rightarrow> char" where
  "lower_char c =
     (case map_of (zip ''ABCDEFGHIJKLMNOPQRSTUVWXYZ'' ''abcdefghijklmnopqrstuvwxyz'') c of
        Some d \<Rightarrow> d
      | None \<Rightarrow> c)"

definition lower :: "string \<Rightarrow> string" where
  \<comment> \<open>\<open>s.lower()\<close>\<close>
  "lower s = map lower_char s"

fun py_replace :: "string \<Rightarrow> string \<Rightarrow> string \<Rightarrow> string" where
  \<comment> \<open>\<open>s.replace(old, new)\<close> for a non-empty \<open>old\<close>: the occurrences are replaced from
      the left, without overlap.\<close>
  "py_replace old new [] = []"
| "py_replace old new (c # cs) =
     (if prefix old (c # cs) then new @ py_replace old new (drop (length old - 1) cs)
      else c # py_replace old new cs)"

fun split_char :: "char \<Rightarrow> string \<Rightarrow> string list" where
  \<comment> \<open>\<open>s.split(sep)\<close> for a separator of one character\<close>
  "split_char sep [] = [[]]"
| "split_char sep (c # cs) =
     (if c = sep then [] # split_char sep cs
      else (case split_char sep cs of
              [] \<Rightarrow> [[c]]
            | p # ps \<Rightarrow> (c # p) # ps))"

definition digit_char :: "nat \<Rightarrow> char" where
  "digit_char d = ''0123456789abcdef'' ! (d mod 16)"

function show_nat :: "nat \<Rightarrow> string" where
  "show_nat n = (if n < 10 then [digit_char n] else show_nat (n div 10) @ [digit_char (n mod 10)])"
  by pat_completeness auto
termination
  by (relation "measure id") auto

definition show_int :: "int \<Rightarrow> string" where
  \<comment> \<open>\<open>str(i)\<close> of a Python integer\<close>
  "show_int i = (if i < 0 then CHR ''-'' # show_nat (nat (- i)) else show_nat (nat i))"

section \<open>Python values and exceptions\<close>

datatype exn_kind =
    TypeError | AttributeError | KeyError | ValueError | JSONDecodeError | RecursionError
  | EmptyDataError | ParserError | FileNotFoundError | FileExistsError | PermissionError
  | IsADirectoryError | RuntimeError | NotModelled

text \<open>An exception is its class and its message, \<open>str(e)\<close>. The messages of the exceptions
  that the library models below raise are shortened.\<close>

datatype exn = Exn exn_kind string

fun exn_msg :: "exn \<Rightarrow> string" where
  "exn_msg (Exn k m) = m"

fun exn_class :: "exn \<Rightarrow> exn_kind" where
  "exn_class (Exn k m) = k"

text \<open>
  The values that flow through the pipeline: what \<open>json.loads\<close> returns, the cells of a
  data frame and the elements of the entity lists. A float is an exact real number
  (rounding is not modelled), and \<open>PNaN\<close> is the float \<open>nan\<close> that pandas puts in a
  missing cell. The keys of a \<open>PDict\<close> are strings, kept in insertion order.
\<close>

datatype pyval =
    PNone
  | PBool bool
  | PInt int
  | PFloat real
  | PNaN
  | PStr string
  | PList "pyval list"
  | PDict "(string \<times> pyval) list"

fun truthy :: "pyval \<Rightarrow> bool" where
  \<comment> \<open>\<open>bool(v)\<close>\<close>
  "truthy PNone = False"
| "truthy (PBool b) = b"
| "truthy (PInt i) = (i \<noteq> 0)"
| "truthy (PFloat r) = (r \<noteq> 0)"
| "truthy PNaN = True"
| "truthy (PStr s) = (s \<noteq> [])"
| "truthy (PList xs) = (xs \<noteq> [])"
| "truthy (PDict kvs) = (kvs \<noteq> [])"

fun is_str :: "pyval \<Rightarrow> bool" where
  \<comment> \<open>\<open>isinstance(v, str)\<close>\<close>
  "is_str (PStr s) = True"
| "is_str v = False"

fun py_iter :: "pyval \<Rightarrow> exn + pyval list" where
  \<comment> \<open>the elements that \<open>for x in v\<close> visits\<close>
  "py_iter (PList xs) = Inr xs"
| "py_iter (PStr s) = Inr (map (\<lambda>c. PStr [c]) s)"
| "py_iter (PDict kvs) = Inr (map (\<lambda>kv. PStr (fst kv)) kvs)"
| "py_iter v = Inl (Exn TypeError ''object is not iterable'')"

fun hashable :: "pyval \<Rightarrow> bool" where
  "hashable (PList xs) = False"
| "hashable (PDict kvs) = False"
| "hashable v = True"

fun num_of :: "pyval \<Rightarrow> real option" where
  "num_of (PBool b) = Some (if b then 1 else 0)"
| "num_of (PInt i) = Some (of_int i)"
| "num_of (PFloat r) = Some r"
| "num_of v = None"

definition py_eq :: "pyval \<Rightarrow> pyval \<Rightarrow> bool" where
  \<comment> \<open>membership in a \<open>set\<close>: numbers compare by value (\<open>True == 1 == 1.0\<close>), everything
      else by structure; the one \<open>nan\<close> object is found by identity.\<close>
  "py_eq a b =
     (case (num_of a, num_of b) of
        (Some x, Some y) \<Rightarrow> x = y
      | (None, None) \<Rightarrow> a = b
      | _ \<Rightarrow> False)"

definition hex2 :: "nat \<Rightarrow> string" where
  "hex2 n = [digit_char (n div 16), digit_char (n mod 16)]"

definition repr_char :: "char \<Rightarrow> char \<Rightarrow> string" where
  \<comment> \<open>one character of \<open>repr(s)\<close>, inside the quote \<open>q\<close>\<close>
  "repr_char q c =
     (if c = q \<or> c = CHR 0x5C then [CHR 0x5C, c]
      else if c = CHR 0x09 then [CHR 0x5C, CHR ''t'']
      else if c = CHR 0x0A then [CHR 0x5C, CHR ''n'']
      else if c = CHR 0x0D then [CHR 0x5C, CHR ''r'']
      else if (of_char c :: nat) < 32 \<or> c = CHR 0x7F
        then [CHR 0x5C, CHR ''x''] @ hex2 (of_char c)
      else [c])"

definition repr_str :: "string \<Rightarrow> string" where
  \<comment> \<open>\<open>repr(s)\<close>: single quotes, unless the text has a single quote and no double quote\<close>
  "repr_str s =
     (let q = (if CHR 0x27 \<in> set s \<and> CHR 0x22 \<notin> set s then CHR 0x22 else CHR 0x27)
      in [q] @ concat (map (repr_char q) s) @ [q])"

fun join :: "string \<Rightarrow> string list \<Rightarrow> string" where
  \<comment> \<open>\<open>sep.join(parts)\<close>\<close>
  "join sep [] = []"
| "join sep [p] = p"
| "join sep (p # q # ps) = p @ sep @ join sep (q # ps)"

text \<open>
  \<open>repr\<close> and \<open>str\<close> of a value. How Python prints a float is not modelled: the printer
  of floats is the parameter \<open>fr\<close>.
\<close>

fun py_repr :: "(real \<Rightarrow> string) \<Rightarrow> pyval \<Rightarrow> string" where
  "py_repr fr PNone = ''None''"
| "py_repr fr (PBool b) = (if b then ''True'' else ''False'')"
| "py_repr fr (PInt i) = show_int i"
| "py_repr fr (PFloat r) = fr r"
| "py_repr fr PNaN = ''nan''"
| "py_repr fr (PStr s) = repr_str s"
| "py_repr fr (PList xs) = ''['' @ join '', '' (map (py_repr fr) xs) @ '']''"
| "py_repr fr (PDict kvs) =
     ''{'' @ join '', '' (map (\<lambda>kv. repr_str (fst kv) @ '': '' @ py_repr fr (snd kv)) kvs) @ ''}''"

definition py_str :: "(real \<Rightarrow> string) \<Rightarrow> pyval \<Rightarrow> string" where
  \<comment> \<open>\<open>str(v)\<close>: the text itself for a string, the \<open>repr\<close> for everything else\<close>
  "py_str fr v = (case v of PStr s \<Rightarrow> s | _ \<Rightarrow> py_repr fr v)"

definition bind :: "exn + 'a \<Rightarrow> ('a \<Rightarrow> exn + 'b) \<Rightarrow> exn + 'b" where
  \<comment> \<open>sequencing: an exception raised by the first step skips the rest\<close>
  "bind m f = (case m of Inl e \<Rightarrow> Inl e | Inr x \<Rightarrow> f x)"

fun mapM :: "('a \<Rightarrow> exn + 'b) \<Rightarrow> 'a list \<Rightarrow> exn + 'b list" where
  \<comment> \<open>a comprehension whose body may raise: the first exception ends it\<close>
  "mapM f [] = Inr []"
| "mapM f (x # xs) = bind (f x) (\<lambda>y. bind (mapM f xs) (\<lambda>ys. Inr (y # ys)))"

section \<open>Dictionaries\<close>

text \<open>
  A Python \<open>dict\<close> keeps its keys in insertion order, and the loops below visit it in that
  order: it is an association list with one entry for each key.
\<close>

fun dict_set :: "('k \<times> 'v) list \<Rightarrow> 'k \<Rightarrow> 'v \<Rightarrow> ('k \<times> 'v) list" where
  \<comment> \<open>\<open>d[k] = v\<close>: a key already there keeps its place\<close>
  "dict_set [] k v = [(k, v)]"
| "dict_set ((k', v') # kvs) k v =
     (if k' = k then (k, v) # kvs else (k', v') # dict_set kvs k v)"

definition dict_get :: "('k \<times> 'v) list \<Rightarrow> 'k \<Rightarrow> 'v option" where
  "dict_get d k = map_of d k"

definition dict_has :: "('k \<times> 'v) list \<Rightarrow> 'k \<Rightarrow> bool" where
  \<comment> \<open>\<open>k in d\<close>\<close>
  "dict_has d k = (map_of d k \<noteq> None)"

section \<open>The similarity scorers\<close>

text \<open>
  \<open>fuzz.ratio\<close>, \<open>fuzz.partial_ratio\<close> and \<open>fuzz.token_sort_ratio\<close> belong to the
  fuzzywuzzy library, and the printer of floats to Python. They are parameters of the model,
  collected in one record.
\<close>

record ext =
  ratio :: "string \<Rightarrow> string \<Rightarrow> int"
  partial_ratio :: "string \<Rightarrow> string \<Rightarrow> int"
  token_sort_ratio :: "string \<Rightarrow> string \<Rightarrow> int"
  float_repr :: "real \<Rightarrow> string"

section \<open>drug\_normalizer.py: DrugNormalizer\<close>

record DrugNormalizer =
  dn_threshold :: real
  synonym_map :: "(string \<times> string) list"

definition load_synonyms_row :: "(string \<times> string) list \<Rightarrow> string \<times> string \<Rightarrow> (string \<times> string) list" where
  \<comment> \<open>the body of the loop of \<open>_load_synonyms\<close> for one row \<open>(DrugName, DrugSynonym)\<close>\<close>
  "load_synonyms_row m0 row =
     (let generic_name = strip (fst row);
          synonyms = map strip (split_char CHR '','' (snd row)) @ [generic_name]
      in fold (\<lambda>synonym m. if synonym \<noteq> [] then dict_set m (lower synonym) generic_name else m)
              synonyms m0)"

definition load_synonyms :: "(string \<times> string) list \<Rightarrow> (string \<times> string) list" where
  \<comment> \<open>\<open>_load_synonyms\<close>, on the rows of the synonym file\<close>
  "load_synonyms rows = fold (\<lambda>row m. load_synonyms_row m row) rows []"

definition DrugNormalizer_init :: "(string \<times> string) list \<Rightarrow> real \<Rightarrow> DrugNormalizer" where
  \<comment> \<open>\<open>DrugNormalizer.__init__\<close>\<close>
  "DrugNormalizer_init rows threshold =
     \<lparr> dn_threshold = threshold, synonym_map = load_synonyms rows \<rparr>"

definition best_step :: "ext \<Rightarrow> string \<Rightarrow> string \<times> string \<Rightarrow> pyval \<times> int \<Rightarrow> pyval \<times> int" where
  \<comment> \<open>one round of the fuzzy loop of \<open>_find_best_match\<close> on \<open>(best_match, best_score)\<close>\<close>
  "best_step X drug_name entry best =
     (let score = ratio X drug_name (fst entry)
      in if score > snd best then (PStr (snd entry), score) else best)"

definition find_best_match :: "ext \<Rightarrow> DrugNormalizer \<Rightarrow> pyval \<Rightarrow> pyval" where
  \<comment> \<open>\<open>_find_best_match\<close>\<close>
  "find_best_match X self drug_name =
     (case drug_name of
        PStr s \<Rightarrow>
          if strip s = [] then drug_name
          else
            let name = lower (strip s) in
            if dict_has (synonym_map self) name then PStr (the (dict_get (synonym_map self) name))
            else
              let best = fold (best_step X name) (synonym_map self) (PNone, 0) in
              if of_int (snd best) \<ge> dn_threshold self then fst best else PStr name
      | _ \<Rightarrow> drug_name)"

fun unique_in_order :: "pyval list \<Rightarrow> pyval list \<Rightarrow> exn + pyval list" where
  \<comment> \<open>\<open>[x for x in normalized if not (x in seen or seen.add(x))]\<close>, from the set \<open>seen\<close>\<close>
  "unique_in_order seen [] = Inr []"
| "unique_in_order seen (x # xs) =
     (if \<not> hashable x then Inl (Exn TypeError ''unhashable type'')
      else if list_ex (\<lambda>y. py_eq y x) seen then unique_in_order seen xs
      else bind (unique_in_order (x # seen) xs) (\<lambda>r. Inr (x # r)))"

definition normalize_drugs :: "ext \<Rightarrow> DrugNormalizer \<Rightarrow> pyval \<Rightarrow> exn + pyval list" where
  "normalize_drugs X self drugs =
     (if \<not> truthy drugs then Inr []
      else bind (py_iter drugs) (\<lambda>ds.
        let normalized = map (\<lambda>drug. if is_str drug then find_best_match X self drug else drug) ds
        in unique_in_order [] normalized))"

section \<open>drug\_normalizer.py: RegimenDrugMapper\<close>

record RegimenDrugMapper =
  rm_threshold :: int
  regimen_map :: "(string \<times> string list) list"

definition load_regimen_map :: "(string \<times> string) list \<Rightarrow> (string \<times> string list) list" where
  \<comment> \<open>\<open>_load_regimen_map\<close>, on the rows \<open>(Regimen, Drugs)\<close> of the regimen file\<close>
  "load_regimen_map rows =
     fold (\<lambda>row m.
             let regimen = lower (strip (fst row));
                 drugs = map (\<lambda>d. lower (strip d)) (split_char CHR '','' (snd row))
             in dict_set m regimen drugs)
          rows []"

definition RegimenDrugMapper_init :: "(string \<times> string) list \<Rightarrow> int \<Rightarrow> RegimenDrugMapper" where
  "RegimenDrugMapper_init rows threshold =
     \<lparr> rm_threshold = threshold, regimen_map = load_regimen_map rows \<rparr>"

definition normalize_regimen_name :: "pyval \<Rightarrow> string" where
  \<comment> \<open>\<open>_normalize_regimen_name\<close>\<close>
  "normalize_regimen_name regimen =
     (case regimen of
        PStr s \<Rightarrow>
          let r0 = lower (strip s);
              r1 = strip (py_replace ''regimen'' [] r0);
              r2 = strip (py_replace ''therapy'' [] r1);
              r3 = strip (py_replace ''protocol'' [] r2)
          in r3
      | _ \<Rightarrow> [])"

definition regimen_step ::
  "ext \<Rightarrow> RegimenDrugMapper \<Rightarrow> string \<Rightarrow> string \<Rightarrow> string option \<times> int \<Rightarrow> string option \<times> int" where
  \<comment> \<open>one round of the fuzzy loop of \<open>_fuzzy_match_regimen\<close> on \<open>(best_match, best_score)\<close>\<close>
  "regimen_step X self normalized_regimen known_regimen best =
     (let ratio_score = ratio X normalized_regimen known_regimen;
          partial_score = partial_ratio X normalized_regimen known_regimen;
          token_sort_score = token_sort_ratio X normalized_regimen known_regimen;
          score = max (max ratio_score partial_score) token_sort_score
      in if score > snd best \<and> score \<ge> rm_threshold self then (Some known_regimen, score) else best)"

definition fuzzy_match_regimen :: "ext \<Rightarrow> RegimenDrugMapper \<Rightarrow> pyval \<Rightarrow> string option" where
  \<comment> \<open>\<open>_fuzzy_match_regimen\<close>; \<open>None\<close> is Python's \<open>None\<close>\<close>
  "fuzzy_match_regimen X self regimen =
     (if \<not> truthy regimen then None
      else
        let normalized_regimen = normalize_regimen_name regimen in
        if dict_has (regimen_map self) normalized_regimen then Some normalized_regimen
        else fst (fold (regimen_step X self normalized_regimen) (map fst (regimen_map self)) (None, 0)))"

definition get_drugs_from_regimen :: "ext \<Rightarrow> RegimenDrugMapper \<Rightarrow> pyval \<Rightarrow> string list" where
  "get_drugs_from_regimen X self regimen =
     (if \<not> truthy regimen then []
      else
        (case fuzzy_match_regimen X self regimen of
           None \<Rightarrow> []
         | Some matched_regimen \<Rightarrow>
             if matched_regimen \<noteq> [] then the (dict_get (regimen_map self) matched_regimen)
             else []))"

fun add_unique :: "string list \<Rightarrow> string \<Rightarrow> string list" where
  "add_unique xs x = (if x \<in> set xs then xs else xs @ [x])"

definition get_combined_drugs :: "ext \<Rightarrow> RegimenDrugMapper \<Rightarrow> pyval \<Rightarrow> pyval \<Rightarrow> exn + string list" where
  \<comment> \<open>The result is \<open>list(all_drugs)\<close> of a Python set, whose order is not fixed by the
      language; the model lists the members in the order they were added.\<close>
  "get_combined_drugs X self extracted_drugs extracted_regimens =
     bind (py_iter extracted_regimens) (\<lambda>regimens.
       let regimen_drugs =
             concat (map (\<lambda>regimen. if truthy regimen then get_drugs_from_regimen X self regimen else [])
                         regimens)
       in (case extracted_drugs of
             PList ds \<Rightarrow>
               Inr (fold (\<lambda>drug all_drugs.
                            if truthy drug
                            then add_unique all_drugs (lower (strip (py_str (float_repr X) drug)))
                            else all_drugs)
                         (ds @ map PStr regimen_drugs) [])
           | _ \<Rightarrow> Inl (Exn TypeError ''unsupported operand type(s) for +'')))"

section \<open>Rows of a data frame\<close>

text \<open>
  A row handed to a function by \<open>DataFrame.apply(..., axis=1)\<close> or by \<open>iterrows\<close> is a
  pandas \<open>Series\<close>: the column labels with the cells of that row. Reading a label that the
  row does not have raises \<open>KeyError\<close>.
\<close>

type_synonym series = "(string \<times> pyval) list"

definition series_get :: "series \<Rightarrow> string \<Rightarrow> exn + pyval" where
  \<comment> \<open>\<open>row[label]\<close>\<close>
  "series_get row label =
     (case map_of row label of
        None \<Rightarrow> Inl (Exn KeyError (repr_str label))
      | Some v \<Rightarrow> Inr v)"

section \<open>metrics.py\<close>

definition normalize_drug_list :: "ext \<Rightarrow> pyval \<Rightarrow> exn + string list" where
  "normalize_drug_list X drugs =
     (if \<not> truthy drugs then Inr []
      else bind (py_iter drugs) (\<lambda>ds.
        Inr (map (\<lambda>drug. lower (strip (py_str (float_repr X) drug))) (filter truthy ds))))"

definition lower_strip :: "pyval \<Rightarrow> exn + string" where
  \<comment> \<open>\<open>drug.lower().strip()\<close>: only a string has the method \<open>lower\<close>\<close>
  "lower_strip drug =
     (case drug of
        PStr s \<Rightarrow> Inr (strip (lower s))
      | _ \<Rightarrow> Inl (Exn AttributeError ''object has no attribute lower''))"

definition precision_of :: "nat \<Rightarrow> nat \<Rightarrow> real" where
  \<comment> \<open>\<open>true_positives / (true_positives + false_positives) if (true_positives +
      false_positives) > 0 else 0\<close>; the integer \<open>0\<close> of the last branch is the float \<open>0.0\<close>
      here\<close>
  "precision_of true_positives false_positives =
     (if true_positives + false_positives > 0
      then real true_positives / real (true_positives + false_positives) else 0)"

definition recall_of :: "nat \<Rightarrow> nat \<Rightarrow> real" where
  "recall_of true_positives false_negatives =
     (if true_positives + false_negatives > 0
      then real true_positives / real (true_positives + false_negatives) else 0)"

definition f1_of :: "real \<Rightarrow> real \<Rightarrow> real" where
  "f1_of precision recall =
     (if precision + recall > 0 then 2 * (precision * recall) / (precision + recall) else 0)"

definition select_in :: "pyval list \<Rightarrow> string list \<Rightarrow> string set \<Rightarrow> pyval list" where
  \<comment> \<open>\<open>[x for x in xs if key(x) in S]\<close>, the keys already computed\<close>
  "select_in xs keys S = map fst (filter (\<lambda>p. snd p \<in> S) (zip xs keys))"

definition compute_metrics :: "ext \<Rightarrow> series \<Rightarrow> bool \<Rightarrow> exn + series" where
  "compute_metrics X row use_normalized =
     bind (series_get row (if use_normalized then ''normalized_drugs'' else ''extracted_drugs''))
       (\<lambda>extracted_drugs.
     bind (series_get row ''unique_drugs'') (\<lambda>ground_truth.
     bind (normalize_drug_list X extracted_drugs) (\<lambda>extracted_list.
     bind (normalize_drug_list X ground_truth) (\<lambda>ground_truth_list.
       let extracted_set = set extracted_list;
           ground_truth_set = set ground_truth_list;
           true_positives = card (extracted_set \<inter> ground_truth_set);
           false_positives = card (extracted_set - ground_truth_set);
           false_negatives = card (ground_truth_set - extracted_set);
           precision = precision_of true_positives false_positives;
           recall = recall_of true_positives false_negatives;
           f1 = f1_of precision recall
       in
     bind (py_iter ground_truth) (\<lambda>gts.
     bind (mapM lower_strip gts) (\<lambda>gt_keys.
     bind (py_iter extracted_drugs) (\<lambda>eds.
     bind (mapM lower_strip eds) (\<lambda>ed_keys.
       Inr [(''precision'', PFloat precision),
            (''recall'', PFloat recall),
            (''f1'', PFloat f1),
            (''missing_drugs'', PList (select_in gts gt_keys (ground_truth_set - extracted_set))),
            (''hallucinated_drugs'',
               PList (select_in eds ed_keys (extracted_set - ground_truth_set)))]))))))))"

definition regimen_keys :: "ext \<Rightarrow> pyval \<Rightarrow> exn + string list" where
  \<comment> \<open>\<open>str(reg).strip().lower() for reg in regimens if reg\<close>\<close>
  "regimen_keys X regimens =
     bind (py_iter regimens) (\<lambda>rs.
       Inr (map (\<lambda>reg. lower (strip (py_str (float_repr X) reg))) (filter truthy rs)))"

definition compute_regimen_metrics :: "ext \<Rightarrow> series \<Rightarrow> exn + series" where
  "compute_regimen_metrics X row =
     bind (series_get row ''extracted_regimens'') (\<lambda>extracted_regimens.
     bind (series_get row ''regimens'') (\<lambda>ground_truth.
     bind (regimen_keys X extracted_regimens) (\<lambda>extracted_list.
     bind (regimen_keys X ground_truth) (\<lambda>ground_truth_list.
       let extracted_set = set extracted_list;
           ground_truth_set = set ground_truth_list;
           true_positives = card (extracted_set \<inter> ground_truth_set);
           false_positives = card (extracted_set - ground_truth_set);
           false_negatives = card (ground_truth_set - extracted_set);
           precision = precision_of true_positives false_positives;
           recall = recall_of true_positives false_negatives;
           f1 = f1_of precision recall
       in
     bind (py_iter ground_truth) (\<lambda>gts.
     bind (py_iter extracted_regimens) (\<lambda>ers.
       Inr [(''precision_regimen'', PFloat precision),
            (''recall_regimen'', PFloat recall),
            (''f1_regimen'', PFloat f1),
            (''missing_regimens'',
               PList (select_in gts (map (\<lambda>reg. strip (lower (py_str (float_repr X) reg))) gts)
                               (ground_truth_set - extracted_set))),
            (''hallucinated_regimens'',
               PList (select_in ers (map (\<lambda>reg. strip (lower (py_str (float_repr X) reg))) ers)
                               (extracted_set - ground_truth_set)))]))))))"

section \<open>json.loads and json.dumps\<close>

text \<open>
  A model of the decoder of Python's \<open>json\<close> module on 8-bit text. It reads the JSON
  grammar and Python's extension \<open>NaN\<close>; a number with a fraction or an exponent is the
  exact real it denotes. Two things are not modelled and end in the exception class
  \<open>NotModelled\<close>: the extensions \<open>Infinity\<close> and \<open>-Infinity\<close>, and an escape
  written with \<open>u\<close> and four hexadecimal digits above \<open>00FF\<close>. Each call spends one unit of \<open>fuel\<close>; \<open>json_loads\<close>
  gives more fuel than a text of that length can spend, and a run out of fuel is Python's
  \<open>RecursionError\<close>.
\<close>

definition json_ws :: "char \<Rightarrow> bool" where
  "json_ws c = (c \<in> set [CHR 0x20, CHR 0x09, CHR 0x0A, CHR 0x0D])"

definition skip_ws :: "string \<Rightarrow> string" where
  "skip_ws s = dropWhile json_ws s"

definition is_digit :: "char \<Rightarrow> bool" where
  "is_digit c = (c \<in> set ''0123456789'')"

definition digit_val :: "char \<Rightarrow> nat" where
  "digit_val c =
     (case map_of (zip ''0123456789abcdefABCDEF''
                       [0, 1, 2, 3, 4, 5, 6, 7, 8, 9, 10, 11, 12, 13, 14, 15, 10, 11, 12, 13, 14, 15]) c of
        Some d \<Rightarrow> d
      | None \<Rightarrow> 0)"

definition is_hex :: "char \<Rightarrow> bool" where
  "is_hex c = (c \<in> set ''0123456789abcdefABCDEF'')"

definition digits_val :: "string \<Rightarrow> nat" where
  \<comment> \<open>the number written by a string of decimal digits\<close>
  "digits_val ds = foldl (\<lambda>n c. 10 * n + digit_val c) 0 ds"

definition decode_error :: "string \<Rightarrow> exn + 'a" where
  "decode_error m = Inl (Exn JSONDecodeError m)"

fun parse_string :: "string \<Rightarrow> string \<Rightarrow> exn + (string \<times> string)" where
  \<comment> \<open>the text after an opening quote: the characters read so far, then the rest\<close>
  "parse_string acc [] = decode_error ''Unterminated string''"
| "parse_string acc (c # cs) =
     (if c = CHR 0x22 then Inr (acc, cs)
      else if c = CHR 0x5C then
        (case cs of
           [] \<Rightarrow> decode_error ''Unterminated string''
         | e # r \<Rightarrow>
             if e = CHR 0x22 \<or> e = CHR 0x5C \<or> e = CHR ''/'' then parse_string (acc @ [e]) r
             else if e = CHR ''b'' then parse_string (acc @ [CHR 0x08]) r
             else if e = CHR ''f'' then parse_string (acc @ [CHR 0x0C]) r
             else if e = CHR ''n'' then parse_string (acc @ [CHR 0x0A]) r
             else if e = CHR ''r'' then parse_string (acc @ [CHR 0x0D]) r
             else if e = CHR ''t'' then parse_string (acc @ [CHR 0x09]) r
             else if e = CHR ''u'' then
               (if length r \<ge> 4 \<and> list_all is_hex (take 4 r) then
                  (if take 2 r = ''00''
                   then parse_string
                          (acc @ [char_of (16 * digit_val (r ! 2) + digit_val (r ! 3))]) (drop 4 r)
                   else Inl (Exn NotModelled ''escape above 00FF''))
                else decode_error ''Invalid uXXXX escape'')
             else decode_error ''Invalid escape'')
      else if (of_char c :: nat) < 32 then decode_error ''Invalid control character''
      else parse_string (acc @ [c]) cs)"

definition parse_number :: "string \<Rightarrow> (pyval \<times> string) option" where
  \<comment> \<open>the longest prefix \<open>-?(0|[1-9][0-9]*)(.[0-9]+)?([eE][-+]?[0-9]+)?\<close>, if there is one\<close>
  "parse_number s =
     (let neg = (s \<noteq> [] \<and> hd s = CHR ''-'');
          s1 = (if neg then tl s else s);
          ip = (if s1 \<noteq> [] \<and> hd s1 = CHR ''0'' then ''0'' else takeWhile is_digit s1);
          s2 = drop (length ip) s1;
          fp = (if s2 \<noteq> [] \<and> hd s2 = CHR ''.'' then takeWhile is_digit (tl s2) else []);
          s3 = (if fp = [] then s2 else drop (Suc (length fp)) s2);
          has_e = (s3 \<noteq> [] \<and> (hd s3 = CHR ''e'' \<or> hd s3 = CHR ''E''));
          s4 = (if has_e then tl s3 else s3);
          esign = (s4 \<noteq> [] \<and> (hd s4 = CHR ''-'' \<or> hd s4 = CHR ''+''));
          s5 = (if has_e \<and> esign then tl s4 else s4);
          ep = (if has_e then takeWhile is_digit s5 else []);
          rest = (if ep = [] then s3 else drop (length ep) s5);
          mant = real (digits_val ip) + real (digits_val fp) / 10 ^ length fp;
          expo = (if ep \<noteq> [] \<and> esign \<and> hd s4 = CHR ''-''
                  then 1 / 10 ^ digits_val ep else 10 ^ digits_val ep);
          sgn = (if neg then - 1 else 1)
      in if ip = [] then None
         else if fp = [] \<and> ep = [] then Some (PInt (sgn * int (digits_val ip)), rest)
         else Some (PFloat (sgn * mant * expo), rest))"

fun parse_value :: "nat \<Rightarrow> string \<Rightarrow> exn + (pyval \<times> string)"
  and parse_elems :: "nat \<Rightarrow> pyval list \<Rightarrow> string \<Rightarrow> exn + (pyval \<times> string)"
  and parse_members :: "nat \<Rightarrow> (string \<times> pyval) list \<Rightarrow> string \<Rightarrow> exn + (pyval \<times> string)"
where
  "parse_value 0 s = Inl (Exn RecursionError ''maximum recursion depth exceeded'')"
| "parse_value (Suc n) s =
     (if s = [] then decode_error ''Expecting value''
      else if hd s = CHR 0x22 then
        bind (parse_string [] (tl s)) (\<lambda>(str, rest). Inr (PStr str, rest))
      else if hd s = CHR ''{'' then
        (let r = skip_ws (tl s)
         in if r \<noteq> [] \<and> hd r = CHR ''}'' then Inr (PDict [], tl r) else parse_members n [] r)
      else if hd s = CHR ''['' then
        (let r = skip_ws (tl s)
         in if r \<noteq> [] \<and> hd r = CHR '']'' then Inr (PList [], tl r) else parse_elems n [] r)
      else if prefix ''null'' s then Inr (PNone, drop 4 s)
      else if prefix ''true'' s then Inr (PBool True, drop 4 s)
      else if prefix ''false'' s then Inr (PBool False, drop 5 s)
      else
        (case parse_number s of
           Some r \<Rightarrow> Inr r
         | None \<Rightarrow>
             if prefix ''NaN'' s then Inr (PNaN, drop 3 s)
             else if prefix ''Infinity'' s \<or> prefix ''-Infinity'' s
               then Inl (Exn NotModelled ''Infinity'')
             else decode_error ''Expecting value''))"
| "parse_elems 0 acc s = Inl (Exn RecursionError ''maximum recursion depth exceeded'')"
| "parse_elems (Suc n) acc s =
     bind (parse_value n s) (\<lambda>(v, rest).
       let r = skip_ws rest
       in if r \<noteq> [] \<and> hd r = CHR '','' then parse_elems n (acc @ [v]) (skip_ws (tl r))
          else if r \<noteq> [] \<and> hd r = CHR '']'' then Inr (PList (acc @ [v]), tl r)
          else decode_error ''Expecting , delimiter'')"
| "parse_members 0 acc s = Inl (Exn RecursionError ''maximum recursion depth exceeded'')"
| "parse_members (Suc n) acc s =
     (if s = [] \<or> hd s \<noteq> CHR 0x22
      then decode_error ''Expecting property name enclosed in double quotes''
      else
        bind (parse_string [] (tl s)) (\<lambda>(key, rest).
          let r = skip_ws rest
          in if r = [] \<or> hd r \<noteq> CHR '':'' then decode_error ''Expecting : delimiter''
             else
               bind (parse_value n (skip_ws (tl r))) (\<lambda>(v, rest2).
                 let r2 = skip_ws rest2
                 in if r2 \<noteq> [] \<and> hd r2 = CHR '','' then
                      parse_members n (dict_set acc key v) (skip_ws (tl r2))
                    else if r2 \<noteq> [] \<and> hd r2 = CHR ''}'' then Inr (PDict (dict_set acc key v), tl r2)
                    else decode_error ''Expecting , delimiter'')))"

definition json_loads :: "string \<Rightarrow> exn + pyval" where
  \<comment> \<open>\<open>json.loads(s)\<close>: one value, with white space around it and nothing else\<close>
  "json_loads s =
     bind (parse_value (Suc (length s)) (skip_ws s)) (\<lambda>(v, rest).
       if skip_ws rest = [] then Inr v else decode_error ''Extra data'')"

definition json_char :: "char \<Rightarrow> string" where
  \<comment> \<open>one character of a string written by \<open>json.dumps(..., ensure_ascii=False)\<close>\<close>
  "json_char c =
     (if c = CHR 0x22 then [CHR 0x5C, CHR 0x22]
      else if c = CHR 0x5C then [CHR 0x5C, CHR 0x5C]
      else if c = CHR 0x0A then [CHR 0x5C, CHR ''n'']
      else if c = CHR 0x0D then [CHR 0x5C, CHR ''r'']
      else if c = CHR 0x09 then [CHR 0x5C, CHR ''t'']
      else if c = CHR 0x08 then [CHR 0x5C, CHR ''b'']
      else if c = CHR 0x0C then [CHR 0x5C, CHR ''f'']
      else if (of_char c :: nat) < 32 then [CHR 0x5C, CHR ''u'', CHR ''0'', CHR ''0''] @ hex2 (of_char c)
      else [c])"

definition json_str :: "string \<Rightarrow> string" where
  "json_str s = [CHR 0x22] @ concat (map json_char s) @ [CHR 0x22]"

fun json_dumps :: "(real \<Rightarrow> string) \<Rightarrow> pyval \<Rightarrow> string" where
  \<comment> \<open>\<open>json.dumps(v, ensure_ascii=False)\<close>; every value of the model can be written\<close>
  "json_dumps fr PNone = ''null''"
| "json_dumps fr (PBool b) = (if b then ''true'' else ''false'')"
| "json_dumps fr (PInt i) = show_int i"
| "json_dumps fr (PFloat r) = fr r"
| "json_dumps fr PNaN = ''NaN''"
| "json_dumps fr (PStr s) = json_str s"
| "json_dumps fr (PList xs) = ''['' @ join '', '' (map (json_dumps fr) xs) @ '']''"
| "json_dumps fr (PDict kvs) =
     ''{'' @ join '', '' (map (\<lambda>kv. json_str (fst kv) @ '': '' @ json_dumps fr (snd kv)) kvs) @ ''}''"

section \<open>config.py\<close>

definition CHECKPOINT_FILE :: string where
  "CHECKPOINT_FILE = ''drug_extraction_checkpoint.csv''"

definition BACKUP_DIR :: string where
  "BACKUP_DIR = ''checkpoint_backups''"

definition BATCH_SIZE :: nat where
  "BATCH_SIZE = 40"

definition MAX_RETRIES :: nat where
  "MAX_RETRIES = 3"

definition RETRY_DELAY :: nat where
  "RETRY_DELAY = 5"

section \<open>The world: files, clock, generator calls\<close>

record datetime =
  year :: nat
  month :: nat
  day :: nat
  hour :: nat
  minute :: nat
  second :: nat
  microsecond :: nat

text \<open>
  What the program changes or reads outside its own variables: the files with their text
  and the directories (paths relative to the working directory, which always exists), the
  paths that the process may not write, the clock as the sequence of its readings with the
  number of readings made so far, the number of calls made to the generator, and the delays
  slept. Printing and logging are left out.
\<close>

record world =
  files :: "(string \<times> string) list"
  dirs :: "string list"
  unwritable :: "string list"
  clock :: "nat \<Rightarrow> datetime"
  clock_reads :: nat
  gen_calls :: nat
  slept :: "nat list"

type_synonym 'a io = "world \<Rightarrow> (exn + 'a) \<times> world"

definition io_return :: "'a \<Rightarrow> 'a io" where
  "io_return x w = (Inr x, w)"

definition io_raise :: "exn \<Rightarrow> 'a io" where
  "io_raise e w = (Inl e, w)"

definition io_bind :: "'a io \<Rightarrow> ('a \<Rightarrow> 'b io) \<Rightarrow> 'b io" where
  \<comment> \<open>one statement after another: an exception leaves with the world as it is then\<close>
  "io_bind m f w = (case m w of (Inl e, w') \<Rightarrow> (Inl e, w') | (Inr x, w') \<Rightarrow> f x w')"

definition io_try :: "'a io \<Rightarrow> (exn \<Rightarrow> 'a io) \<Rightarrow> 'a io" where
  \<comment> \<open>\<open>try: m except Exception as e: h(e)\<close>\<close>
  "io_try m h w = (case m w of (Inl e, w') \<Rightarrow> h e w' | (Inr x, w') \<Rightarrow> (Inr x, w'))"

definition io_lift :: "exn + 'a \<Rightarrow> 'a io" where
  \<comment> \<open>a computation that does not touch the world\<close>
  "io_lift r w = (r, w)"

definition datetime_now :: "datetime io" where
  \<comment> \<open>\<open>datetime.now()\<close>: the next reading of the clock\<close>
  "datetime_now w = (Inr (clock w (clock_reads w)), w\<lparr>clock_reads := Suc (clock_reads w)\<rparr>)"

definition time_sleep :: "nat \<Rightarrow> unit io" where
  "time_sleep secs w = (Inr (), w\<lparr>slept := slept w @ [secs]\<rparr>)"

definition zpad :: "nat \<Rightarrow> nat \<Rightarrow> string" where
  \<comment> \<open>a number in decimal, filled with zeros on the left to a width\<close>
  "zpad width n = replicate (width - length (show_nat n)) CHR ''0'' @ show_nat n"

definition strftime_compact :: "datetime \<Rightarrow> string" where
  \<comment> \<open>\<open>strftime("%Y%m%d_%H%M%S")\<close>\<close>
  "strftime_compact t =
     zpad 4 (year t) @ zpad 2 (month t) @ zpad 2 (day t) @ ''_'' @
     zpad 2 (hour t) @ zpad 2 (minute t) @ zpad 2 (second t)"

definition isoformat :: "datetime \<Rightarrow> string" where
  "isoformat t =
     zpad 4 (year t) @ ''-'' @ zpad 2 (month t) @ ''-'' @ zpad 2 (day t) @ ''T'' @
     zpad 2 (hour t) @ '':'' @ zpad 2 (minute t) @ '':'' @ zpad 2 (second t) @
     (if microsecond t = 0 then [] else ''.'' @ zpad 6 (microsecond t))"

subsection \<open>os and shutil\<close>

definition dict_del :: "('k \<times> 'v) list \<Rightarrow> 'k \<Rightarrow> ('k \<times> 'v) list" where
  \<comment> \<open>\<open>del d[k]\<close>\<close>
  "dict_del d k = filter (\<lambda>kv. fst kv \<noteq> k) d"

definition dirname :: "string \<Rightarrow> string" where
  "dirname p = rev (drop 1 (dropWhile (\<lambda>c. c \<noteq> CHR ''/'') (rev p)))"

definition basename :: "string \<Rightarrow> string" where
  "basename p = rev (takeWhile (\<lambda>c. c \<noteq> CHR ''/'') (rev p))"

definition path_join :: "string \<Rightarrow> string \<Rightarrow> string" where
  \<comment> \<open>\<open>os.path.join(d, name)\<close> for a relative name\<close>
  "path_join d name = (if d = [] then name else d @ ''/'' @ name)"

definition is_file :: "world \<Rightarrow> string \<Rightarrow> bool" where
  "is_file w p = dict_has (files w) p"

definition is_dir :: "world \<Rightarrow> string \<Rightarrow> bool" where
  "is_dir w p = (p = [] \<or> p \<in> set (dirs w))"

definition os_path_exists :: "string \<Rightarrow> bool io" where
  "os_path_exists p w = (Inr (is_file w p \<or> is_dir w p), w)"

definition os_makedirs :: "string \<Rightarrow> unit io" where
  "os_makedirs d w =
     (if is_file w d \<or> is_dir w d then (Inl (Exn FileExistsError d), w)
      else if d \<in> set (unwritable w) then (Inl (Exn PermissionError d), w)
      else (Inr (), w\<lparr>dirs := dirs w @ [d]\<rparr>))"

definition write_text :: "string \<Rightarrow> string \<Rightarrow> unit io" where
  \<comment> \<open>create or overwrite the file at a path with a text\<close>
  "write_text p text w =
     (if is_dir w p then (Inl (Exn IsADirectoryError p), w)
      else if \<not> is_dir w (dirname p) then (Inl (Exn FileNotFoundError p), w)
      else if p \<in> set (unwritable w) then (Inl (Exn PermissionError p), w)
      else (Inr (), w\<lparr>files := dict_set (files w) p text\<rparr>))"

definition shutil_copy2 :: "string \<Rightarrow> string \<Rightarrow> unit io" where
  \<comment> \<open>\<open>shutil.copy2(src, dst)\<close>; a destination that is a directory receives the file under
      its own name\<close>
  "shutil_copy2 src dst w =
     (case dict_get (files w) src of
        None \<Rightarrow> (Inl (Exn FileNotFoundError src), w)
      | Some text \<Rightarrow>
          if is_dir w dst then write_text (path_join dst (basename src)) text w
          else write_text dst text w)"

definition os_replace :: "string \<Rightarrow> string \<Rightarrow> unit io" where
  \<comment> \<open>\<open>os.replace(src, dst)\<close> for a file: the destination is overwritten\<close>
  "os_replace src dst w =
     (case dict_get (files w) src of
        None \<Rightarrow> (Inl (Exn FileNotFoundError src), w)
      | Some text \<Rightarrow>
          if is_dir w dst then (Inl (Exn IsADirectoryError dst), w)
          else if \<not> is_dir w (dirname dst) then (Inl (Exn FileNotFoundError dst), w)
          else if src \<in> set (unwritable w) \<or> dst \<in> set (unwritable w)
            then (Inl (Exn PermissionError dst), w)
          else if src = dst then (Inr (), w)
          else (Inr (), w\<lparr>files := dict_set (dict_del (files w) src) dst text\<rparr>))"

definition os_rename :: "string \<Rightarrow> string \<Rightarrow> unit io" where
  \<comment> \<open>\<open>os.rename\<close> of a file on POSIX, where it replaces an existing destination\<close>
  "os_rename src dst = os_replace src dst"

definition os_remove :: "string \<Rightarrow> unit io" where
  "os_remove p w =
     (if is_dir w p then (Inl (Exn IsADirectoryError p), w)
      else if \<not> is_file w p then (Inl (Exn FileNotFoundError p), w)
      else if p \<in> set (unwritable w) then (Inl (Exn PermissionError p), w)
      else (Inr (), w\<lparr>files := dict_del (files w) p\<rparr>))"

definition is_child :: "string \<Rightarrow> string \<Rightarrow> bool" where
  \<comment> \<open>the path names an entry directly inside the directory\<close>
  "is_child d p = (basename p \<noteq> [] \<and> path_join d (basename p) = p)"

definition os_listdir :: "string \<Rightarrow> string list io" where
  \<comment> \<open>the names in a directory, files and directories; Python fixes no order\<close>
  "os_listdir d w =
     (if \<not> is_dir w d then (Inl (Exn FileNotFoundError d), w)
      else (Inr (map basename (filter (is_child d) (map fst (files w) @ dirs w))), w))"

fun io_for :: "'a list \<Rightarrow> ('a \<Rightarrow> unit io) \<Rightarrow> unit io" where
  \<comment> \<open>\<open>for x in xs: body(x)\<close>\<close>
  "io_for [] body = io_return ()"
| "io_for (x # xs) body = io_bind (body x) (\<lambda>_. io_for xs body)"

section \<open>Data frames and their CSV form\<close>

text \<open>
  A data frame is its column labels and its rows, each row with one cell for each column.
\<close>

record dataframe =
  columns :: "string list"
  rows :: "pyval list list"

definition empty_frame :: dataframe where
  \<comment> \<open>\<open>pd.DataFrame()\<close>\<close>
  "empty_frame = \<lparr> columns = [], rows = [] \<rparr>"

definition df_empty :: "dataframe \<Rightarrow> bool" where
  \<comment> \<open>\<open>df.empty\<close>\<close>
  "df_empty df = (columns df = [] \<or> rows df = [])"

definition df_len :: "dataframe \<Rightarrow> nat" where
  \<comment> \<open>\<open>len(df)\<close>\<close>
  "df_len df = length (rows df)"

definition iterrows :: "dataframe \<Rightarrow> series list" where
  \<comment> \<open>the rows as labelled series\<close>
  "iterrows df = map (\<lambda>r. zip (columns df) r) (rows df)"

definition df_column :: "dataframe \<Rightarrow> string \<Rightarrow> exn + pyval list" where
  \<comment> \<open>\<open>df[label]\<close>\<close>
  "df_column df label =
     (if label \<in> set (columns df) then mapM (\<lambda>row. series_get row label) (iterrows df)
      else Inl (Exn KeyError (repr_str label)))"

subsection \<open>DataFrame.to\_csv\<close>

definition cell_text :: "(real \<Rightarrow> string) \<Rightarrow> pyval \<Rightarrow> string" where
  \<comment> \<open>the text of a cell: nothing for a missing value, the text of a string, and \<open>str\<close> of
      every other object, so a list is written the way Python prints it\<close>
  "cell_text fr v =
     (case v of
        PNone \<Rightarrow> []
      | PNaN \<Rightarrow> []
      | PStr s \<Rightarrow> s
      | _ \<Rightarrow> py_str fr v)"

definition csv_special :: "char \<Rightarrow> bool" where
  "csv_special c = (c \<in> set [CHR '','', CHR 0x22, CHR 0x0A, CHR 0x0D])"

definition csv_field :: "string \<Rightarrow> string" where
  \<comment> \<open>minimal quoting: a field with a comma, a quote or a line break is put in quotes, its
      quotes doubled\<close>
  "csv_field s =
     (if list_ex csv_special s
      then [CHR 0x22] @ concat (map (\<lambda>c. if c = CHR 0x22 then [c, c] else [c]) s) @ [CHR 0x22]
      else s)"

definition csv_line :: "string list \<Rightarrow> string" where
  \<comment> \<open>a record; a single empty field is written as two quotes\<close>
  "csv_line flds =
     (if flds = [[]] then [CHR 0x22, CHR 0x22] else join '','' (map csv_field flds)) @ [CHR 0x0A]"

definition to_csv :: "(real \<Rightarrow> string) \<Rightarrow> dataframe \<Rightarrow> string" where
  \<comment> \<open>\<open>df.to_csv(path, index=False)\<close>, the text written\<close>
  "to_csv fr df =
     csv_line (columns df) @ concat (map (\<lambda>r. csv_line (map (cell_text fr) r)) (rows df))"

subsection \<open>pandas.read\_csv\<close>

text \<open>
  The reader splits the text into records and fields, skips blank lines, takes the first
  record as the header, fills a short row with empty fields and rejects a row longer than
  the header. A column with a converter hands each field, as text, to the converter. In
  the other columns a field from the list of markers of a missing value is \<open>nan\<close> and
  every other field stays a string: that pandas turns a column of numbers or of booleans
  into numbers or booleans, and renames repeated or empty labels, is not modelled.
\<close>

function csv_scan ::
  "bool \<Rightarrow> bool \<Rightarrow> string \<Rightarrow> string list \<Rightarrow> string list list \<Rightarrow> string \<Rightarrow> exn + string list list" where
  \<comment> \<open>\<open>csv_scan quoted started field record records text\<close>: inside quotes or not, whether the
      current line has any character, the field and the record being read, the records
      read\<close>
  "csv_scan quoted started field record records [] =
     (if quoted then Inl (Exn ParserError ''EOF inside string'')
      else if started then Inr (records @ [record @ [field]])
      else Inr records)"
| "csv_scan quoted started field record records (c # cs) =
     (if quoted then
        (if c = CHR 0x22 then
           (case cs of
              d # ds \<Rightarrow>
                if d = CHR 0x22 then csv_scan True True (field @ [c]) record records ds
                else csv_scan False True field record records cs
            | [] \<Rightarrow> csv_scan False True field record records cs)
         else csv_scan True True (field @ [c]) record records cs)
      else if c = CHR 0x22 then csv_scan True True field record records cs
      else if c = CHR '','' then csv_scan False True [] (record @ [field]) records cs
      else if c = CHR 0x0A then
        csv_scan False False [] [] (if started then records @ [record @ [field]] else records) cs
      else if c = CHR 0x0D then
        csv_scan False False [] [] (if started then records @ [record @ [field]] else records)
          (case cs of d # ds \<Rightarrow> if d = CHR 0x0A then ds else cs | [] \<Rightarrow> cs)
      else csv_scan False True (field @ [c]) record records cs)"
  by pat_completeness auto
termination
  by (relation "measure (\<lambda>(quoted, started, field, record, records, text). length text)")
     (auto split: list.splits)

definition na_values :: "string list" where
  "na_values = ['''', ''#N/A'', ''#N/A N/A'', ''#NA'', ''-1.#IND'', ''-1.#QNAN'', ''-NaN'', ''-nan'',
                ''1.#IND'', ''1.#QNAN'', ''<NA>'', ''N/A'', ''NA'', ''NULL'', ''NaN'', ''None'',
                ''n/a'', ''nan'', ''null'']"

definition decode_cell :: "(string \<times> (string \<Rightarrow> exn + pyval)) list \<Rightarrow> string \<Rightarrow> string \<Rightarrow> exn + pyval" where
  "decode_cell converters label text =
     (case map_of converters label of
        Some conv \<Rightarrow> conv text
      | None \<Rightarrow> if text \<in> set na_values then Inr PNaN else Inr (PStr text))"

definition decode_row ::
  "(string \<times> (string \<Rightarrow> exn + pyval)) list \<Rightarrow> string list \<Rightarrow> string list \<Rightarrow> exn + pyval list" where
  "decode_row converters header flds =
     (if length flds > length header
      then Inl (Exn ParserError ''Error tokenizing data'')
      else mapM (\<lambda>(label, text). decode_cell converters label text)
                (zip header (flds @ replicate (length header - length flds) [])))"

definition read_csv :: "(string \<times> (string \<Rightarrow> exn + pyval)) list \<Rightarrow> string \<Rightarrow> exn + dataframe" where
  \<comment> \<open>\<open>pd.read_csv(path, converters=...)\<close> on the text of the file\<close>
  "read_csv converters text =
     bind (csv_scan False False [] [] [] text) (\<lambda>records.
       case records of
         [] \<Rightarrow> Inl (Exn EmptyDataError ''No columns to parse from file'')
       | header # body \<Rightarrow>
           bind (mapM (decode_row converters header) body) (\<lambda>rs.
             Inr \<lparr> columns = header, rows = rs \<rparr>))"

section \<open>data\_utils.py: the checkpoint store\<close>

definition safe_json_loads :: "string \<Rightarrow> exn + pyval" where
  \<comment> \<open>As a converter of \<open>read_csv\<close> the function receives the text of the cell, so
      \<open>pd.isna(x)\<close> is false. Only \<open>JSONDecodeError\<close> is caught.\<close>
  "safe_json_loads x =
     (if strip x \<in> set ['''', ''{}'', ''[]''] then Inr (PList [])
      else (case json_loads x of
              Inl e \<Rightarrow> if exn_class e = JSONDecodeError then Inr (PList []) else Inl e
            | Inr v \<Rightarrow> Inr v))"

definition create_backup_dir :: "unit io" where
  "create_backup_dir =
     io_bind (os_path_exists BACKUP_DIR) (\<lambda>ex.
       if \<not> ex then os_makedirs BACKUP_DIR else io_return ())"

definition get_backup_filename :: "string io" where
  "get_backup_filename =
     io_bind datetime_now (\<lambda>now.
       io_return (path_join BACKUP_DIR (''checkpoint_backup_'' @ strftime_compact now @ ''.csv'')))"

definition atomic_write :: "ext \<Rightarrow> dataframe \<Rightarrow> string \<Rightarrow> unit io" where
  "atomic_write X df filename =
     (let temp_file = filename @ ''.tmp'' in
      io_try
        (io_bind (write_text temp_file (to_csv (float_repr X) df)) (\<lambda>_.
           os_replace temp_file filename))
        (\<lambda>e. io_bind (os_path_exists temp_file) (\<lambda>ex.
                io_bind (if ex then os_remove temp_file else io_return ()) (\<lambda>_.
                  io_raise e))))"

definition checkpoint_converters :: "(string \<times> (string \<Rightarrow> exn + pyval)) list" where
  "checkpoint_converters =
     [(''unique_drugs'', safe_json_loads),
      (''extracted_drugs'', safe_json_loads),
      (''json_extraction'', safe_json_loads)]"

definition required_columns :: "string list" where
  "required_columns = [''unique_key'', ''text_concat'', ''extracted_drugs'']"

definition read_checkpoint :: "string \<Rightarrow> exn + dataframe" where
  \<comment> \<open>the body of the \<open>try\<close> of \<open>load_checkpoint\<close>, on the text of the checkpoint file\<close>
  "read_checkpoint text =
     bind (read_csv checkpoint_converters text) (\<lambda>df.
       if \<not> list_all (\<lambda>col. col \<in> set (columns df)) required_columns
       then Inl (Exn ValueError ''Corrupted checkpoint - missing required columns'')
       else Inr df)"

definition load_checkpoint :: "dataframe io" where
  "load_checkpoint =
     io_bind create_backup_dir (\<lambda>_.
     io_bind (os_path_exists CHECKPOINT_FILE) (\<lambda>ex.
       if ex then
         io_try
           (\<lambda>w. (case dict_get (files w) CHECKPOINT_FILE of
                    None \<Rightarrow> (Inl (Exn IsADirectoryError CHECKPOINT_FILE), w)
                  | Some text \<Rightarrow> (read_checkpoint text, w)))
           (\<lambda>e.
              io_bind get_backup_filename (\<lambda>backup_file.
              io_bind (io_try (shutil_copy2 CHECKPOINT_FILE backup_file)
                              (\<lambda>backup_error. io_return ())) (\<lambda>_.
              io_bind (os_rename CHECKPOINT_FILE (CHECKPOINT_FILE @ ''.corrupted'')) (\<lambda>_.
                io_return empty_frame))))
       else io_return empty_frame))"

definition is_backup_name :: "string \<Rightarrow> bool" where
  \<comment> \<open>\<open>f.startswith("checkpoint_backup_")\<close>\<close>
  "is_backup_name f = prefix ''checkpoint_backup_'' f"

definition backup_existing :: "unit io" where
  \<comment> \<open>the first block of \<open>save_checkpoint\<close>: "Create a backup before saving"\<close>
  "backup_existing =
     io_bind (os_path_exists CHECKPOINT_FILE) (\<lambda>ex.
       if ex then io_bind get_backup_filename (\<lambda>backup_file.
                    shutil_copy2 CHECKPOINT_FILE backup_file)
       else io_return ())"

definition clean_old_backups :: "unit io" where
  \<comment> \<open>the last block of \<open>save_checkpoint\<close>: "Clean up old backups (keep last 5)"\<close>
  "clean_old_backups =
     io_bind (os_listdir BACKUP_DIR) (\<lambda>names.
       let backup_files = sort (filter is_backup_name names) in
       if length backup_files > 5
       then io_for (take (length backup_files - 5) backup_files)
                   (\<lambda>old_backup. os_remove (path_join BACKUP_DIR old_backup))
       else io_return ())"

definition save_checkpoint :: "ext \<Rightarrow> dataframe \<Rightarrow> unit io" where
  \<comment> \<open>The three blocks of the \<open>try\<close>, in their order. The handler prints the exception and
      raises it again, which is what leaving the sequence with it does.\<close>
  "save_checkpoint X df =
     io_bind backup_existing (\<lambda>_.
     io_bind (atomic_write X df CHECKPOINT_FILE) (\<lambda>_.
       clean_old_backups))"

section \<open>Notions used in the statements\<close>

definition normal_key :: "string \<Rightarrow> bool" where
  \<comment> \<open>a key as \<open>_load_synonyms\<close> writes it: not empty, trimmed and in lower case\<close>
  "normal_key k = (k \<noteq> [] \<and> strip k = k \<and> lower k = k)"

definition atom :: "pyval \<Rightarrow> bool" where
  \<comment> \<open>the values \<open>_find_best_match\<close> returns for a string: a string or \<open>None\<close>\<close>
  "atom v = (v = PNone \<or> is_str v)"

definition first_occurrences :: "'a list \<Rightarrow> 'a list \<Rightarrow> 'a list" where
  \<comment> \<open>the entries of \<open>xs\<close> whose value is neither in \<open>seen\<close> nor at an earlier place of
      \<open>xs\<close>, in the order of \<open>xs\<close>\<close>
  "first_occurrences seen xs =
     map ((!) xs) (filter (\<lambda>i. xs ! i \<notin> set seen \<union> set (take i xs)) [0..<length xs])"

definition metrics_in_range :: "string set \<Rightarrow> string set \<Rightarrow> real \<Rightarrow> real \<Rightarrow> real \<Rightarrow> bool" where
  \<comment> \<open>what is asked of precision \<open>p\<close>, recall \<open>r\<close> and F1 \<open>f\<close> for the normalized extracted
      set \<open>E\<close> and the normalized ground-truth set \<open>G\<close>\<close>
  "metrics_in_range E G p r f =
     (0 \<le> p \<and> p \<le> 1 \<and> 0 \<le> r \<and> r \<le> 1 \<and> 0 \<le> f \<and> f \<le> 1 \<and>
      ((p = 1 \<and> r = 1) = (E = G \<and> E \<noteq> {})) \<and>
      (E = {} \<and> G = {} \<longrightarrow> p = 0 \<and> r = 0 \<and> f = 0))"

definition normalized_set :: "string list \<Rightarrow> string set" where
  \<comment> \<open>the set both metric functions compare: the non-empty entries, trimmed, in lower case\<close>
  "normalized_set xs = set (map (\<lambda>d. lower (strip d)) (filter (\<lambda>d. d \<noteq> []) xs))"

definition plain_fs :: "world \<Rightarrow> bool" where
  \<comment> \<open>a working directory in which nothing stops the file operations of the program: no path
      is write-protected, the backup directory is the only directory there can be and is not
      a file, and a path names one file\<close>
  "plain_fs w =
     (unwritable w = [] \<and> set (dirs w) \<subseteq> {BACKUP_DIR} \<and> \<not> is_file w BACKUP_DIR \<and>
      distinct (map fst (files w)))"

definition backups_of :: "world \<Rightarrow> string set" where
  \<comment> \<open>the names of the backups in the backup directory\<close>
  "backups_of w =
     set (filter is_backup_name
            (map basename (filter (is_child BACKUP_DIR) (map fst (files w) @ dirs w))))"

definition next_backup_file :: "world \<Rightarrow> string" where
  \<comment> \<open>the path that \<open>get_backup_filename\<close> returns at the next reading of the clock\<close>
  "next_backup_file w =
     path_join BACKUP_DIR
       (''checkpoint_backup_'' @ strftime_compact (clock w (clock_reads w)) @ ''.csv'')"

definition example_time :: datetime where
  "example_time =
     \<lparr> year = 2025, month = 3, day = 7, hour = 9, minute = 5, second = 1, microsecond = 0 \<rparr>"

definition example_world :: "(string \<times> string) list \<Rightarrow> world" where
  \<comment> \<open>a world with the given files, the backup directory, and a clock that stands still\<close>
  "example_world fs =
     \<lparr> files = fs, dirs = [BACKUP_DIR], unwritable = [], clock = (\<lambda>n. example_time),
       clock_reads = 0, gen_calls = 0, slept = [] \<rparr>"

definition example_ext :: ext where
  \<comment> \<open>scorers that know only equal strings, and a printer of floats that prints nothing\<close>
  "example_ext =
     \<lparr> ratio = (\<lambda>a b. if a = b then 100 else 0),
       partial_ratio = (\<lambda>a b. if a = b then 100 else 0),
       token_sort_ratio = (\<lambda>a b. if a = b then 100 else 0),
       float_repr = (\<lambda>r. []) \<rparr>"

section \<open>Properties of the regimen mapper\<close>

lemma normalize_chop_protocol: "normalize_regimen_name (PStr ''CHOP Protocol'') = ''chop''"
  by (simp add: normalize_regimen_name_def strip_def rstrip_def lstrip_def py_isspace_def
      lower_def lower_char_def)

text \<open>
  Claim C7. With the regimen table that maps \<open>chop\<close> to cyclophosphamide, doxorubicin,
  vincristine and prednisone, and threshold 70, the name \<open>CHOP Protocol\<close> is normalized
  to \<open>chop\<close> (lower case, the word \<open>protocol\<close> removed, trimmed), the exact lookup
  answers before any scorer is called (the result is the same for every scorer \<open>X\<close>), and
  the four drugs of the table are returned.
\<close>

theorem chop_protocol_resolves:
  "normalize_regimen_name (PStr ''CHOP Protocol'') = ''chop'' \<and>
   fuzzy_match_regimen X
     \<lparr> rm_threshold = 70,
       regimen_map = [(''chop'', [''cyclophosphamide'', ''doxorubicin'', ''vincristine'', ''prednisone''])] \<rparr>
     (PStr ''CHOP Protocol'') = Some ''chop'' \<and>
   get_drugs_from_regimen X
     \<lparr> rm_threshold = 70,
       regimen_map = [(''chop'', [''cyclophosphamide'', ''doxorubicin'', ''vincristine'', ''prednisone''])] \<rparr>
     (PStr ''CHOP Protocol'')
   = [''cyclophosphamide'', ''doxorubicin'', ''vincristine'', ''prednisone'']"
  by (simp add: get_drugs_from_regimen_def fuzzy_match_regimen_def dict_has_def dict_get_def
      normalize_chop_protocol)

section \<open>Properties of the drug normalizer\<close>

lemma fold_best_step_zero:
  "\<forall>e \<in> set tbl. ratio X name (fst e) = 0 \<Longrightarrow>
   fold (best_step X name) tbl (PNone, 0) = (PNone, 0)"
  by (induction tbl) (simp_all add: best_step_def)

text \<open>
  Claim C10. A normalizer with threshold 0, asked for a non-blank name that is no key of
  the synonym table and that scores 0 against every key, answers \<open>None\<close>: the loop never
  replaces the initial \<open>best_match = None\<close>, and \<open>0 >= 0\<close> selects it. So
  \<open>normalize_drugs\<close> puts \<open>None\<close> where the name was, and the name is not kept.
\<close>

theorem threshold_zero_returns_None:
  assumes "dn_threshold self = 0"
    and "strip s \<noteq> []"
    and "\<not> dict_has (synonym_map self) (lower (strip s))"
    and "\<forall>e \<in> set (synonym_map self). ratio X (lower (strip s)) (fst e) = 0"
  shows "find_best_match X self (PStr s) = PNone \<and>
         normalize_drugs X self (PList [PStr s]) = Inr [PNone]"
proof -
  have fb: "find_best_match X self (PStr s) = PNone"
    using assms by (simp add: find_best_match_def fold_best_step_zero)
  then show ?thesis
    by (simp add: normalize_drugs_def bind_def)
qed

theorem threshold_zero_returns_None_witness:
  "find_best_match
     \<lparr> ratio = (\<lambda>a b. if a = b then 100 else 0), partial_ratio = (\<lambda>a b. 0),
       token_sort_ratio = (\<lambda>a b. 0), float_repr = (\<lambda>r. []) \<rparr>
     \<lparr> dn_threshold = 0, synonym_map = [(''oncovin'', ''vincristine'')] \<rparr>
     (PStr ''Aspirin '') = PNone \<and>
   normalize_drugs
     \<lparr> ratio = (\<lambda>a b. if a = b then 100 else 0), partial_ratio = (\<lambda>a b. 0),
       token_sort_ratio = (\<lambda>a b. 0), float_repr = (\<lambda>r. []) \<rparr>
     \<lparr> dn_threshold = 0, synonym_map = [(''oncovin'', ''vincristine'')] \<rparr>
     (PList [PStr ''Aspirin '']) = Inr [PNone]"
  using threshold_zero_returns_None
    [of "\<lparr> dn_threshold = 0, synonym_map = [(''oncovin'', ''vincristine'')] \<rparr>" "''Aspirin ''"
        "\<lparr> ratio = (\<lambda>a b. if a = b then 100 else 0), partial_ratio = (\<lambda>a b. 0),
           token_sort_ratio = (\<lambda>a b. 0), float_repr = (\<lambda>r. []) \<rparr>"]
  by (simp add: strip_def rstrip_def lstrip_def py_isspace_def dict_has_def lower_def lower_char_def)

section \<open>Properties of Python strings\<close>

lemma isspace_lower_char: "py_isspace (lower_char c) = py_isspace c"
  by (simp add: lower_char_def py_isspace_def)

lemma lower_char_idem: "lower_char (lower_char c) = lower_char c"
  by (simp add: lower_char_def)

lemma lower_idem: "lower (lower s) = lower s"
  by (simp add: lower_def lower_char_idem)

lemma lower_Nil_iff: "lower s = [] \<longleftrightarrow> s = []"
  by (simp add: lower_def)

lemma lstrip_lower: "lstrip (lower s) = lower (lstrip s)"
  by (simp add: lstrip_def lower_def dropWhile_map comp_def isspace_lower_char)

lemma rstrip_lower: "rstrip (lower s) = lower (rstrip s)"
  by (simp add: rstrip_def lower_def dropWhile_map comp_def isspace_lower_char rev_map)

lemma strip_lower: "strip (lower s) = lower (strip s)"
  by (simp add: strip_def lstrip_lower rstrip_lower)

lemma lstrip_rstrip_commute: "lstrip (rstrip s) = rstrip (lstrip s)"
proof (induction s)
  case Nil
  then show ?case by (simp add: lstrip_def rstrip_def)
next
  case (Cons c s)
  show ?case
  proof (cases "py_isspace c")
    case False
    then have "rstrip (c # s) = c # rstrip s"
      by (simp add: rstrip_def dropWhile_append split: if_splits)
    with False show ?thesis by (simp add: lstrip_def)
  next
    case True
    show ?thesis
    proof (cases "\<forall>x \<in> set s. py_isspace x")
      case t: True
      then have "rstrip (c # s) = []" "rstrip (lstrip (c # s)) = []"
        using True by (auto simp add: rstrip_def lstrip_def dropWhile_append dest: set_dropWhileD)
      then show ?thesis by (simp add: lstrip_def)
    next
      case f: False
      then have "rstrip (c # s) = c # rstrip s"
        by (auto simp add: rstrip_def dropWhile_append)
      with True Cons show ?thesis by (simp add: lstrip_def)
    qed
  qed
qed

lemma strip_idem: "strip (strip s) = strip s"
proof -
  have l: "lstrip (lstrip t) = lstrip t" for t by (simp add: lstrip_def)
  have r: "rstrip (rstrip t) = rstrip t" for t by (simp add: rstrip_def)
  show ?thesis
    by (simp add: strip_def lstrip_rstrip_commute l r)
qed

lemma map_fst_dict_set:
  "map fst (dict_set d k v) = (if k \<in> set (map fst d) then map fst d else map fst d @ [k])"
  by (induction d) (force simp add: image_iff)+

lemma dict_set_keys: "set (map fst (dict_set d k v)) = insert k (set (map fst d))"
  by (auto simp add: map_fst_dict_set)

lemma load_row_keys:
  assumes "\<forall>k \<in> set (map fst m). normal_key k"
  shows "\<forall>k \<in> set (map fst (fold (\<lambda>synonym m. if synonym \<noteq> [] then dict_set m (lower synonym) g else m) (map strip ss) m)). normal_key k"
  using assms
proof (induction ss arbitrary: m)
  case Nil
  then show ?case by simp
next
  case (Cons a ss)
  have "\<forall>k \<in> set (map fst (if strip a \<noteq> [] then dict_set m (lower (strip a)) g else m)). normal_key k"
    using Cons.prems
    by (simp add: dict_set_keys normal_key_def lower_Nil_iff strip_lower strip_idem lower_idem del: set_map)
  from Cons.IH [OF this] show ?case by simp
qed

lemma load_synonyms_row_keys:
  assumes "\<forall>k \<in> set (map fst m). normal_key k"
  shows "\<forall>k \<in> set (map fst (load_synonyms_row m row)). normal_key k"
proof -
  have "map strip (split_char CHR '','' (snd row)) @ [strip (fst row)]
        = map strip (split_char CHR '','' (snd row) @ [fst row])"
    by simp
  then show ?thesis
    unfolding load_synonyms_row_def Let_def
    using load_row_keys [OF assms] by (simp only:)
qed

lemma fold_rows_keys:
  "\<forall>k \<in> set (map fst m). normal_key k \<Longrightarrow>
   \<forall>k \<in> set (map fst (fold (\<lambda>row m. load_synonyms_row m row) synonym_rows m)). normal_key k"
proof (induction synonym_rows arbitrary: m)
  case Nil
  then show ?case by simp
next
  case (Cons r synonym_rows)
  from Cons.IH [OF load_synonyms_row_keys [OF Cons.prems]] show ?case by simp
qed

lemma load_synonyms_keys: "\<forall>k \<in> set (map fst (load_synonyms synonym_rows)). normal_key k"
  unfolding load_synonyms_def by (rule fold_rows_keys) simp

lemma dict_has_key: "dict_has d k \<Longrightarrow> k \<in> set (map fst d)"
  by (simp add: dict_has_def map_of_eq_None_iff)

lemma load_synonyms_key_normal:
  assumes "dict_has (load_synonyms synonym_rows) k"
  shows "normal_key k"
proof -
  have "k \<in> set (map fst (load_synonyms synonym_rows))" using assms by (rule dict_has_key)
  with load_synonyms_keys [of synonym_rows] show ?thesis by (rule_tac bspec)
qed

lemma load_synonyms_example:
  "load_synonyms [(''vincristine'', ''Oncovin, VCR'')] =
   [(''oncovin'', ''vincristine''), (''vcr'', ''vincristine''), (''vincristine'', ''vincristine'')]"
  by code_simp

text \<open>
  Claim C5. Whatever the threshold and whatever the scorer, a name that is a key of the
  synonym table of a normalizer (the table that \<open>__init__\<close> loads) is answered by the
  exact lookup with the canonical name stored for that key: the fuzzy loop is not reached,
  so no entry with a higher score can win.
\<close>

theorem exact_synonym_wins:
  assumes "dict_has (load_synonyms synonym_rows) k"
  shows "find_best_match X (DrugNormalizer_init synonym_rows threshold) (PStr k)
         = PStr (the (dict_get (load_synonyms synonym_rows) k))"
proof -
  have "normal_key k" using assms by (rule load_synonyms_key_normal)
  then have k: "strip k \<noteq> []" "lower (strip k) = k"
    by (simp_all add: normal_key_def)
  have sm: "synonym_map (DrugNormalizer_init synonym_rows threshold) = load_synonyms synonym_rows"
    by (simp add: DrugNormalizer_init_def)
  show ?thesis
    unfolding find_best_match_def sm
    by (simp only: pyval.case k if_False if_True assms Let_def)
qed

theorem exact_synonym_wins_witness:
  "dict_has (load_synonyms [(''vincristine'', ''Oncovin, VCR'')]) ''oncovin'' \<and>
   find_best_match
     \<lparr> ratio = (\<lambda>a b. 100), partial_ratio = (\<lambda>a b. 100), token_sort_ratio = (\<lambda>a b. 100),
       float_repr = (\<lambda>r. []) \<rparr>
     (DrugNormalizer_init [(''vincristine'', ''Oncovin, VCR'')] 101) (PStr ''oncovin'')
   = PStr ''vincristine''"
proof -
  have h: "dict_has (load_synonyms [(''vincristine'', ''Oncovin, VCR'')]) ''oncovin''"
    by (simp add: load_synonyms_example dict_has_def)
  show ?thesis
    using h exact_synonym_wins [OF h, of
        "\<lparr> ratio = (\<lambda>a b. 100), partial_ratio = (\<lambda>a b. 100), token_sort_ratio = (\<lambda>a b. 100),
           float_repr = (\<lambda>r. []) \<rparr>" 101]
    by (simp add: load_synonyms_example dict_get_def)
qed

lemma atom_hashable: "atom v \<Longrightarrow> hashable v"
  by (cases v) (simp_all add: atom_def)

lemma atom_py_eq: "atom a \<Longrightarrow> atom b \<Longrightarrow> py_eq a b = (a = b)"
  by (cases a; cases b) (simp_all add: atom_def py_eq_def)

lemma list_ex_atoms:
  "\<forall>y \<in> set seen. atom y \<Longrightarrow> atom x \<Longrightarrow> list_ex (\<lambda>y. py_eq y x) seen = (x \<in> set seen)"
  by (induction seen) (auto simp add: atom_py_eq)

lemma first_occurrences_Nil: "first_occurrences seen [] = []"
  by (simp add: first_occurrences_def)

lemma first_occurrences_Cons:
  "first_occurrences seen (x # xs) =
     (if x \<in> set seen then first_occurrences seen xs else x # first_occurrences (x # seen) xs)"
proof -
  have upt: "[0..<length (x # xs)] = 0 # map Suc [0..<length xs]"
    by (simp add: upt_conv_Cons map_Suc_upt del: upt_Suc)
  show ?thesis
    unfolding first_occurrences_def upt
    apply (simp add: filter_map comp_def)
    apply (intro conjI impI; rule arg_cong [where f = "map ((!) xs)"]; rule filter_cong)
       apply auto
    done
qed

lemma unique_in_order_atoms:
  "\<forall>x \<in> set xs. atom x \<Longrightarrow> \<forall>y \<in> set seen. atom y \<Longrightarrow>
   unique_in_order seen xs = Inr (first_occurrences seen xs)"
proof (induction xs arbitrary: seen)
  case Nil
  then show ?case by (simp add: first_occurrences_Nil)
next
  case (Cons x xs)
  then show ?case
    by (simp add: first_occurrences_Cons atom_hashable list_ex_atoms bind_def)
qed

lemma set_first_occurrences: "set (first_occurrences seen xs) = set xs - set seen"
  by (induction xs arbitrary: seen) (auto simp add: first_occurrences_Nil first_occurrences_Cons)

lemma distinct_first_occurrences: "distinct (first_occurrences seen xs)"
  by (induction xs arbitrary: seen)
     (auto simp add: first_occurrences_Nil first_occurrences_Cons set_first_occurrences)

lemma fold_best_step_atom:
  "atom (fst b) \<Longrightarrow> atom (fst (fold (best_step X name) tbl b))"
  by (induction tbl arbitrary: b) (simp_all add: best_step_def Let_def atom_def)

lemma find_best_match_atom: "atom (find_best_match X self (PStr s))"
  using fold_best_step_atom [of "(PNone, 0)" X "lower (strip s)" "synonym_map self"]
  by (simp add: find_best_match_def Let_def atom_def)

text \<open>
  Claim C6. For every list of names, \<open>normalize_drugs\<close> returns the normalized names
  (each name sent through \<open>_find_best_match\<close>) without duplicates and in the order of
  their first occurrence: the result holds exactly the entries of the normalized list whose
  value did not occur at an earlier place of that list. So it has every normalized value
  once, two different names with the same normalized value give one entry, and the empty
  list gives the empty list.
\<close>

theorem normalize_drugs_first_occurrences:
  "normalize_drugs X self (PList (map PStr names))
     = Inr (first_occurrences [] (map (\<lambda>n. find_best_match X self (PStr n)) names)) \<and>
   distinct (first_occurrences [] (map (\<lambda>n. find_best_match X self (PStr n)) names)) \<and>
   set (first_occurrences [] (map (\<lambda>n. find_best_match X self (PStr n)) names))
     = set (map (\<lambda>n. find_best_match X self (PStr n)) names) \<and>
   normalize_drugs X self (PList []) = Inr []"
proof -
  let ?ns = "map (\<lambda>n. find_best_match X self (PStr n)) names"
  have atoms: "\<forall>x \<in> set ?ns. atom x"
    by (simp add: find_best_match_atom)
  have m: "map (\<lambda>drug. if is_str drug then find_best_match X self drug else drug) (map PStr names) = ?ns"
    by simp
  have run: "normalize_drugs X self (PList (map PStr names)) = Inr (first_occurrences [] ?ns)"
  proof (cases names)
    case Nil
    then show ?thesis by (simp add: normalize_drugs_def first_occurrences_Nil)
  next
    case (Cons a as)
    then have "truthy (PList (map PStr names))" by simp
    then show ?thesis
      unfolding normalize_drugs_def
      by (simp add: bind_def m unique_in_order_atoms [OF atoms] del: map_map)
  qed
  show ?thesis
    by (simp only: run distinct_first_occurrences set_first_occurrences)
       (simp add: normalize_drugs_def)
qed

section \<open>Properties of the metrics\<close>

lemma normalize_drug_list_strings:
  "normalize_drug_list X (PList (map PStr es)) = Inr (map (\<lambda>d. lower (strip d)) (filter (\<lambda>d. d \<noteq> []) es))"
  by (cases es) (simp_all add: normalize_drug_list_def bind_def py_str_def filter_map comp_def)

lemma regimen_keys_strings:
  "regimen_keys X (PList (map PStr es)) = Inr (map (\<lambda>d. lower (strip d)) (filter (\<lambda>d. d \<noteq> []) es))"
  by (simp add: regimen_keys_def bind_def py_str_def filter_map comp_def)

lemma mapM_lower_strip_strings:
  "mapM lower_strip (map PStr es) = Inr (map (\<lambda>d. strip (lower d)) es)"
  by (induction es) (simp_all add: bind_def lower_strip_def)

lemma f1_range:
  assumes "0 \<le> p" "p \<le> 1" "0 \<le> r" "r \<le> (1::real)"
  shows "0 \<le> f1_of p r \<and> f1_of p r \<le> 1"
proof (cases "p + r > 0")
  case False
  then show ?thesis by (simp add: f1_of_def)
next
  case True
  have "p * r \<le> p * 1" using assms by (intro mult_left_mono) auto
  moreover have "p * r \<le> 1 * r" using assms by (intro mult_right_mono) auto
  ultimately have "2 * (p * r) \<le> p + r" by simp
  moreover have "0 \<le> 2 * (p * r)" using assms by simp
  ultimately show ?thesis using True by (simp add: f1_of_def)
qed

lemma metrics_of_sets:
  assumes "finite E" "finite G"
  shows "metrics_in_range E G
           (precision_of (card (E \<inter> G)) (card (E - G)))
           (recall_of (card (E \<inter> G)) (card (G - E)))
           (f1_of (precision_of (card (E \<inter> G)) (card (E - G))) (recall_of (card (E \<inter> G)) (card (G - E))))"
proof -
  let ?tp = "card (E \<inter> G)" and ?fp = "card (E - G)" and ?fn = "card (G - E)"
  let ?p = "precision_of ?tp ?fp" and ?r = "recall_of ?tp ?fn"
  have cE: "?tp + ?fp = card E"
    using assms by (metis card_Diff_subset_Int card_mono finite_Int inf_le1 le_add_diff_inverse)
  have cG: "?tp + ?fn = card G"
    using assms by (metis Int_commute card_Diff_subset_Int card_mono finite_Int inf_le1 le_add_diff_inverse)
  have p: "0 \<le> ?p" "?p \<le> 1" by (simp_all add: precision_of_def)
  have r: "0 \<le> ?r" "?r \<le> 1" by (simp_all add: recall_of_def)
  have p1: "?p = 1 \<longleftrightarrow> E \<noteq> {} \<and> E \<subseteq> G"
  proof -
    have "?p = 1 \<longleftrightarrow> ?tp + ?fp > 0 \<and> ?fp = 0"
      by (auto simp add: precision_of_def)
    also have "\<dots> \<longleftrightarrow> card E > 0 \<and> E - G = {}"
      using assms cE by auto
    also have "\<dots> \<longleftrightarrow> E \<noteq> {} \<and> E \<subseteq> G"
      using assms by (auto simp add: card_gt_0_iff)
    finally show ?thesis .
  qed
  have r1: "?r = 1 \<longleftrightarrow> G \<noteq> {} \<and> G \<subseteq> E"
  proof -
    have "?r = 1 \<longleftrightarrow> ?tp + ?fn > 0 \<and> ?fn = 0"
      by (auto simp add: recall_of_def)
    also have "\<dots> \<longleftrightarrow> card G > 0 \<and> G - E = {}"
      using assms cG by auto
    also have "\<dots> \<longleftrightarrow> G \<noteq> {} \<and> G \<subseteq> E"
      using assms by (auto simp add: card_gt_0_iff)
    finally show ?thesis .
  qed
  have both: "(?p = 1 \<and> ?r = 1) = (E = G \<and> E \<noteq> {})"
    unfolding p1 r1 by auto
  have empty: "E = {} \<and> G = {} \<longrightarrow> ?p = 0 \<and> ?r = 0 \<and> f1_of ?p ?r = 0"
    by (simp add: precision_of_def recall_of_def f1_of_def)
  show ?thesis
    unfolding metrics_in_range_def
    using p r f1_range [OF p r] both empty by blast
qed

lemma finite_normalized_set: "finite (normalized_set xs)"
  by (simp add: normalized_set_def)

text \<open>
  Claim C4. For every extracted list and every ground-truth list of strings, both metric
  functions (\<open>compute_metrics\<close>, on the raw or on the normalized drugs, and
  \<open>compute_regimen_metrics\<close>) return a precision, a recall and an F1 that lie between 0
  and 1; precision and recall are both 1 exactly when the normalized extracted set equals
  the normalized ground-truth set and is not empty; and when both sets are empty, precision
  and recall (and F1) are the number 0. Floats are exact real numbers here.
\<close>

theorem metrics_bounds:
  assumes "map_of row (if use_normalized then ''normalized_drugs'' else ''extracted_drugs'')
             = Some (PList (map PStr extracted))"
    and "map_of row ''unique_drugs'' = Some (PList (map PStr truth))"
    and "map_of row ''extracted_regimens'' = Some (PList (map PStr extracted_regimens))"
    and "map_of row ''regimens'' = Some (PList (map PStr truth_regimens))"
  shows "(\<exists>p r f missing hallucinated.
            compute_metrics X row use_normalized
              = Inr [(''precision'', PFloat p), (''recall'', PFloat r), (''f1'', PFloat f),
                     (''missing_drugs'', PList missing), (''hallucinated_drugs'', PList hallucinated)] \<and>
            metrics_in_range (normalized_set extracted) (normalized_set truth) p r f) \<and>
         (\<exists>p r f missing hallucinated.
            compute_regimen_metrics X row
              = Inr [(''precision_regimen'', PFloat p), (''recall_regimen'', PFloat r),
                     (''f1_regimen'', PFloat f),
                     (''missing_regimens'', PList missing),
                     (''hallucinated_regimens'', PList hallucinated)] \<and>
            metrics_in_range (normalized_set extracted_regimens) (normalized_set truth_regimens) p r f)"
proof -
  have drugs: "\<exists>p r f missing hallucinated.
            compute_metrics X row use_normalized
              = Inr [(''precision'', PFloat p), (''recall'', PFloat r), (''f1'', PFloat f),
                     (''missing_drugs'', PList missing), (''hallucinated_drugs'', PList hallucinated)] \<and>
            metrics_in_range (normalized_set extracted) (normalized_set truth) p r f"
    using metrics_of_sets [OF finite_normalized_set [of extracted] finite_normalized_set [of truth]]
    unfolding compute_metrics_def
    by (simp add: assms(1,2) series_get_def bind_def normalize_drug_list_strings
        mapM_lower_strip_strings Let_def normalized_set_def del: set_map set_filter)
  have regimens: "\<exists>p r f missing hallucinated.
            compute_regimen_metrics X row
              = Inr [(''precision_regimen'', PFloat p), (''recall_regimen'', PFloat r),
                     (''f1_regimen'', PFloat f),
                     (''missing_regimens'', PList missing),
                     (''hallucinated_regimens'', PList hallucinated)] \<and>
            metrics_in_range (normalized_set extracted_regimens) (normalized_set truth_regimens) p r f"
    using metrics_of_sets [OF finite_normalized_set [of extracted_regimens]
        finite_normalized_set [of truth_regimens]]
    unfolding compute_regimen_metrics_def
    by (simp add: assms(3,4) series_get_def bind_def regimen_keys_strings
        Let_def normalized_set_def del: set_map set_filter)
  from drugs regimens show ?thesis by (rule conjI)
qed

theorem metrics_bounds_witness:
  "(\<exists>p r f missing hallucinated.
      compute_metrics
        \<lparr> ratio = (\<lambda>a b. 0), partial_ratio = (\<lambda>a b. 0), token_sort_ratio = (\<lambda>a b. 0),
          float_repr = (\<lambda>r. []) \<rparr>
        [(''unique_drugs'', PList []), (''regimens'', PList []),
         (''extracted_drugs'', PList []), (''extracted_regimens'', PList [])] False
        = Inr [(''precision'', PFloat p), (''recall'', PFloat r), (''f1'', PFloat f),
               (''missing_drugs'', PList missing), (''hallucinated_drugs'', PList hallucinated)] \<and>
      metrics_in_range {} {} p r f) \<and>
   (\<exists>p r f missing hallucinated.
      compute_regimen_metrics
        \<lparr> ratio = (\<lambda>a b. 0), partial_ratio = (\<lambda>a b. 0), token_sort_ratio = (\<lambda>a b. 0),
          float_repr = (\<lambda>r. []) \<rparr>
        [(''unique_drugs'', PList []), (''regimens'', PList []),
         (''extracted_drugs'', PList []), (''extracted_regimens'', PList [])]
        = Inr [(''precision_regimen'', PFloat p), (''recall_regimen'', PFloat r),
               (''f1_regimen'', PFloat f),
               (''missing_regimens'', PList missing),
               (''hallucinated_regimens'', PList hallucinated)] \<and>
      metrics_in_range {} {} p r f)"
  using metrics_bounds
    [of "[(''unique_drugs'', PList []), (''regimens'', PList []),
          (''extracted_drugs'', PList []), (''extracted_regimens'', PList [])]"
        False "[]" "[]" "[]" "[]"
        "\<lparr> ratio = (\<lambda>a b. 0), partial_ratio = (\<lambda>a b. 0), token_sort_ratio = (\<lambda>a b. 0),
           float_repr = (\<lambda>r. []) \<rparr>"]
  by (simp add: normalized_set_def)

end
